theory Spec2Isabelle
  imports Complex_Main
begin

section \<open>Strings and the name sanitizer\<close>

text \<open>
  A Go string is a sequence of bytes, which is what \<^typ>\<open>string\<close> is here.

  \<^verbatim>\<open>
  func cleanName(s string) string {
      s = strings.Replace(s, " ", "_", -1) // Remove spaces
      s = strings.Replace(s, "(", "", -1)  // Remove open parenthesis
      s = strings.Replace(s, ")", "", -1)  // Remove close parenthesis
      s = strings.Replace(s, "/", "", -1)  // Remove forward slashes
      s = strings.ToLower(s)
      return s
  }
  \<close>

  \<open>Replace\<close> is \<^verbatim>\<open>strings.Replace(s, old, new, -1)\<close> for a pattern \<open>old\<close> of one byte, the
  only way \<^verbatim>\<open>cleanName\<close> calls it: every occurrence of the byte is replaced, from left to
  right. \<open>ToLower\<close> is \<^verbatim>\<open>strings.ToLower\<close> on the ASCII range: the bytes \<open>A\<close> to \<open>Z\<close> move to
  \<open>a\<close> to \<open>z\<close>, every other byte stays. (Go lowers letters beyond ASCII as well; the lemma
  \<open>strip_lower_idem\<close> below covers any lowering function that is idempotent and does not
  produce one of the four bytes the sanitizer rewrites.)
\<close>

primrec Replace :: "string \<Rightarrow> char \<Rightarrow> string \<Rightarrow> string" where
  "Replace [] old new = []"
| "Replace (c # cs) old new =
     (if c = old then new @ Replace cs old new else c # Replace cs old new)"

definition lower_byte :: "char \<Rightarrow> char" where
  "lower_byte c =
     (if 65 \<le> (of_char c :: nat) \<and> (of_char c :: nat) \<le> 90
      then char_of ((of_char c :: nat) + 32) else c)"

definition ToLower :: "string \<Rightarrow> string" where
  "ToLower s = map lower_byte s"

definition cleanName :: "string \<Rightarrow> string" where
  "cleanName s =
     (let s = Replace s (CHR '' '') ''_'';
          s = Replace s (CHR ''('') [];
          s = Replace s (CHR '')'') [];
          s = Replace s (CHR ''/'') [];
          s = ToLower s
      in s)"



section \<open>Metrics\<close>

text \<open>
  The part of the Prometheus client the exporter uses. A descriptor carries the fully
  qualified family name, the help text and the declared label keys; a constant metric is a
  descriptor with a value kind, a value and the label values in the order of the keys.
  \<open>float64\<close> values are taken as reals: the exporter never computes with them beyond adding
  the session counts. \<open>BuildFQName\<close> joins the non-empty parts with an underscore and
  is empty when the name is. Constructing a metric is taken to succeed
  (\<^verbatim>\<open>MustNewConstMetric\<close> panics on a descriptor the client library rejects or on a wrong
  number of label values): each call in the source passes as many label values as its
  descriptor declares keys, its label keys and help texts are constants, and the only family
  names built from database strings are those of the four statistics that the query of
  \<open>ScrapeActivity\<close> names and of Oracle's wait classes, which sanitize to metric names.
\<close>

type_synonym float64 = real

type_synonym err = string

datatype ValueType = CounterValue | GaugeValue

record Desc =
  fqName :: string
  helpText :: string
  variableLabels :: "string list"

record Metric =
  desc :: Desc
  valType :: ValueType
  val :: float64
  labelValues :: "string list"

definition BuildFQName :: "string \<Rightarrow> string \<Rightarrow> string \<Rightarrow> string" where
  "BuildFQName ns subsystem name =
     (if name = [] then []
      else if ns \<noteq> [] \<and> subsystem \<noteq> [] then ns @ ''_'' @ subsystem @ ''_'' @ name
      else if ns \<noteq> [] then ns @ ''_'' @ name
      else if subsystem \<noteq> [] then subsystem @ ''_'' @ name
      else name)"

definition NewDesc :: "string \<Rightarrow> string \<Rightarrow> string list \<Rightarrow> Desc" where
  "NewDesc fq h labels = \<lparr>fqName = fq, helpText = h, variableLabels = labels\<rparr>"

definition MustNewConstMetric :: "Desc \<Rightarrow> ValueType \<Rightarrow> float64 \<Rightarrow> string list \<Rightarrow> Metric" where
  "MustNewConstMetric d t v lvs = \<lparr>desc = d, valType = t, val = v, labelValues = lvs\<rparr>"

definition namespace :: string where
  "namespace = ''oracledb''"

text \<open>
  The labels of a sample, each declared key with the value passed at its position, and the
  value a sample carries under a key.
\<close>

definition labels :: "Metric \<Rightarrow> (string \<times> string) list" where
  "labels m = zip (variableLabels (desc m)) (labelValues m)"

definition label :: "Metric \<Rightarrow> string \<Rightarrow> string option" where
  "label m k = map_of (labels m) k"

section \<open>The database, as one pass sees it\<close>

text \<open>
  A query either fails or yields rows; \<^verbatim>\<open>rows.Scan\<close> of a row either fails or fills the
  destination variables, so a row is \<open>Inl\<close> of the scan's error or \<open>Inr\<close> of the values
  scanned, in the order of the destinations. \<open>DB\<close> holds what the database answers during
  one pass: the outcome of \<^verbatim>\<open>sql.Open\<close>, of the liveness query, of each sub-collector's
  query, and the wall-clock time the pass takes. Every answer is possible here; the
  database and its driver decide which ones occur (the query of \<open>ScrapeSessionTime\<close>, for
  one, selects seven columns for five destinations, and a scan the driver refuses is an
  \<open>Inl\<close> row). Rows that end early, \<^verbatim>\<open>rows.Next()\<close> turning false on an error, are a
  shorter list: no sub-collector looks at \<^verbatim>\<open>rows.Err()\<close>.
\<close>

datatype 'r Query = QueryError err | Rows "(err + 'r) list"

record DB =
  open_err :: "err option"
  ping_err :: "err option"
  activity_q :: "(string \<times> float64) Query"
  tablespace_q :: "(string \<times> string \<times> string \<times> string \<times> float64 \<times> float64 \<times> float64) Query"
  wait_time_q :: "(string \<times> float64) Query"
  sessions_q :: "(string \<times> string \<times> float64) Query"
  buffer_pool_q :: "(string \<times> float64 \<times> float64 \<times> float64 \<times> float64) Query"
  hit_sga_q :: "float64 Query"
  user_number_q :: "float64 Query"
  response_time_q :: "(string \<times> float64) Query"
  asm_disk_q :: "(string \<times> string \<times> float64) Query"
  date_file_q :: "(string \<times> string \<times> string) Query"
  session_wait_q :: "(string \<times> string \<times> float64) Query"
  force_log_q :: "string Query"
  session_time_q :: "(string \<times> string \<times> string \<times> float64 \<times> float64) Query"
  transaction_q :: "(string \<times> string \<times> string \<times> float64) Query"
  elapsed :: float64

text \<open>
  The loop every sub-collector but \<open>ScrapeSessions\<close> runs,
  \<^verbatim>\<open>for rows.Next() { if err := rows.Scan(...); err != nil { return err }; ch <- ... }\<close>:
  \<open>out\<close> is what has been sent on the channel so far, a failing scan returns its error
  and keeps what was sent, the end of the rows returns \<open>nil\<close>.
\<close>

fun for_rows :: "('r \<Rightarrow> Metric list) \<Rightarrow> (err + 'r) list \<Rightarrow> Metric list \<Rightarrow> Metric list \<times> err option" where
  "for_rows body [] out = (out, None)"
| "for_rows body (Inl e # rows) out = (out, Some e)"
| "for_rows body (Inr r # rows) out = for_rows body rows (out @ body r)"

text \<open>
  A sub-collector gives the samples it sends and the error it returns (\<open>None\<close> is \<open>nil\<close>).
  \<open>query\<close> is its opening, \<^verbatim>\<open>rows, err = db.Query(...); if err != nil { return err }\<close>.
\<close>

type_synonym Scraper = "DB \<Rightarrow> Metric list \<times> err option"

definition query :: "'r Query \<Rightarrow> ((err + 'r) list \<Rightarrow> Metric list \<times> err option) \<Rightarrow> Metric list \<times> err option" where
  "query q k = (case q of QueryError e \<Rightarrow> ([], Some e) | Rows rows \<Rightarrow> k rows)"

text \<open>The rows a loop gets through: those before the first failing scan.\<close>

fun scanned :: "(err + 'r) list \<Rightarrow> 'r list" where
  "scanned [] = []"
| "scanned (Inl e # rows) = []"
| "scanned (Inr r # rows) = r # scanned rows"

fun scan_err :: "(err + 'r) list \<Rightarrow> err option" where
  "scan_err [] = None"
| "scan_err (Inl e # rows) = Some e"
| "scan_err (Inr r # rows) = scan_err rows"

definition rows_of :: "'r Query \<Rightarrow> 'r list" where
  "rows_of q = (case q of QueryError e \<Rightarrow> [] | Rows rows \<Rightarrow> scanned rows)"

text \<open>The error a query and the scans of its rows end with, if any.\<close>

definition failure_of :: "'r Query \<Rightarrow> err option" where
  "failure_of q = (case q of QueryError e \<Rightarrow> Some e | Rows rows \<Rightarrow> scan_err rows)"

section \<open>The sub-collectors\<close>

text \<open>
  Each sub-collector runs its query, returns the query's error if there is one, builds its
  descriptors and loops over the rows. They are given in the order \<open>scrape\<close> calls them.
\<close>

definition ScrapeActivity :: Scraper where
  "ScrapeActivity db = query (activity_q db) (\<lambda>rows.
     for_rows (\<lambda>(name, value).
       let name = cleanName name
       in [MustNewConstMetric
             (NewDesc (BuildFQName namespace ''activity'' name)
                ''Generic counter metric from v$sysstat view in Oracle.'' [])
             CounterValue value []]) rows [])"

definition ScrapeTablespace :: Scraper where
  "ScrapeTablespace db = query (tablespace_q db) (\<lambda>rows.
     let tablespaceBytesDesc = NewDesc (BuildFQName namespace ''tablespace'' ''bytes'')
           ''Generic counter metric of tablespaces bytes in Oracle.'' [''tablespace'', ''type''];
         tablespaceMaxBytesDesc = NewDesc (BuildFQName namespace ''tablespace'' ''max_bytes'')
           ''Generic counter metric of tablespaces max bytes in Oracle.'' [''tablespace'', ''type''];
         tablespaceFreeBytesDesc = NewDesc (BuildFQName namespace ''tablespace'' ''free'')
           ''Generic counter metric of tablespaces free bytes in Oracle.'' [''tablespace'', ''type'']
     in for_rows (\<lambda>(tablespace_name, status, contents, extent_management, bytes, max_bytes, bytes_free).
          [MustNewConstMetric tablespaceBytesDesc GaugeValue bytes [tablespace_name, contents],
           MustNewConstMetric tablespaceMaxBytesDesc GaugeValue max_bytes [tablespace_name, contents],
           MustNewConstMetric tablespaceFreeBytesDesc GaugeValue bytes_free [tablespace_name, contents]])
          rows [])"

definition ScrapeWaitTime :: Scraper where
  "ScrapeWaitTime db = query (wait_time_q db) (\<lambda>rows.
     for_rows (\<lambda>(name, value).
       let name = cleanName name
       in [MustNewConstMetric
             (NewDesc (BuildFQName namespace ''wait_time'' name)
                ''Generic counter metric from v$waitclassmetric view in Oracle.'' [])
             CounterValue value []]) rows [])"

text \<open>
  \<open>ScrapeSessions\<close> keeps two running sums over its loop and sends the two deprecated
  aggregates after it; a failing scan returns before they are sent.
\<close>

fun sessions_loop ::
  "(err + string \<times> string \<times> float64) list \<Rightarrow> float64 \<Rightarrow> float64 \<Rightarrow> Metric list
     \<Rightarrow> Metric list \<times> float64 \<times> float64 \<times> err option" where
  "sessions_loop [] activeCount inactiveCount out = (out, activeCount, inactiveCount, None)"
| "sessions_loop (Inl e # rows) activeCount inactiveCount out =
     (out, activeCount, inactiveCount, Some e)"
| "sessions_loop (Inr (status, sessionType, count) # rows) activeCount inactiveCount out =
     (let out = out @ [MustNewConstMetric
                   (NewDesc (BuildFQName namespace ''sessions'' ''activity'')
                      ''Gauge metric with count of sessions by status and type''
                      [''status'', ''type''])
                   GaugeValue count [status, sessionType]];
          activeCount = (if status = ''ACTIVE'' then activeCount + count else activeCount);
          inactiveCount = (if status = ''INACTIVE'' then inactiveCount + count else inactiveCount)
      in sessions_loop rows activeCount inactiveCount out)"

definition ScrapeSessions :: Scraper where
  "ScrapeSessions db = query (sessions_q db) (\<lambda>rows.
     case sessions_loop rows 0 0 [] of
       (out, activeCount, inactiveCount, Some e) \<Rightarrow> (out, Some e)
     | (out, activeCount, inactiveCount, None) \<Rightarrow>
         (out @
          [MustNewConstMetric
             (NewDesc (BuildFQName namespace ''sessions'' ''active'')
                ''Gauge metric with count of sessions marked ACTIVE. DEPRECATED: use sum(oracledb_sessions_activity{status='ACTIVE}) instead.''
                [])
             GaugeValue activeCount [],
           MustNewConstMetric
             (NewDesc (BuildFQName namespace ''sessions'' ''inactive'')
                ''Gauge metric with count of sessions marked INACTIVE. DEPRECATED: use sum(oracledb_sessions_activity{status='INACTIVE'}) instead.''
                [])
             GaugeValue inactiveCount []],
          None))"

definition ScrapeBufferPool :: Scraper where
  "ScrapeBufferPool db = query (buffer_pool_q db) (\<lambda>rows.
     let bufferDesc = NewDesc (BuildFQName namespace ''buffer'' ''hits'')
           ''buffer hits percentage.'' [''table'']
     in for_rows (\<lambda>(name, physical_reads, db_block_gets, consistent_gets, hit_ratio).
          let name = cleanName name
          in [MustNewConstMetric bufferDesc GaugeValue hit_ratio [name]]) rows [])"

definition ScrapeHitSGA :: Scraper where
  "ScrapeHitSGA db = query (hit_sga_q db) (\<lambda>rows.
     let bufferDesc = NewDesc (BuildFQName namespace ''sga'' ''hits'')
           ''sga hits percentage.'' []
     in for_rows (\<lambda>hit_ratio. [MustNewConstMetric bufferDesc GaugeValue hit_ratio []]) rows [])"

definition ScrapeUserNumber :: Scraper where
  "ScrapeUserNumber db = query (user_number_q db) (\<lambda>rows.
     let bufferDesc = NewDesc (BuildFQName namespace ''user'' ''number'')
           ''user number.'' []
     in for_rows (\<lambda>number. [MustNewConstMetric bufferDesc GaugeValue number []]) rows [])"

definition ScrapeResponseTime :: Scraper where
  "ScrapeResponseTime db = query (response_time_q db) (\<lambda>rows.
     let bufferDesc = NewDesc (BuildFQName namespace ''response'' ''time'')
           ''database response time.'' [''type'']
     in for_rows (\<lambda>(name, value).
          let name = cleanName name
          in [MustNewConstMetric bufferDesc GaugeValue value [name]]) rows [])"

definition ScrapeAsmDisk :: Scraper where
  "ScrapeAsmDisk db = query (asm_disk_q db) (\<lambda>rows.
     let bufferDesc = NewDesc (BuildFQName namespace ''asm'' ''disk_usage'')
           ''asm disk usage'' [''type'', ''group_name'']
     in for_rows (\<lambda>(group_name, name, value).
          let name = cleanName name
          in [MustNewConstMetric bufferDesc GaugeValue value [name, group_name]]) rows [])"

definition ScrapeDateFile :: Scraper where
  "ScrapeDateFile db = query (date_file_q db) (\<lambda>rows.
     let bufferDesc = NewDesc (BuildFQName namespace ''data_file'' ''status'')
           ''data file status'' [''file'', ''filename'']
     in for_rows (\<lambda>(file, filename, status).
          let filename = cleanName filename;
              value = (if status = ''ONLINE'' then 1 else 0)
          in [MustNewConstMetric bufferDesc GaugeValue value [file, filename]]) rows [])"

definition ScrapeSessionWait :: Scraper where
  "ScrapeSessionWait db = query (session_wait_q db) (\<lambda>rows.
     let bufferDesc = NewDesc (BuildFQName namespace ''session'' ''wait_second'')
           ''session wait second'' [''sid'', ''username'']
     in for_rows (\<lambda>(sid, username, value).
          [MustNewConstMetric bufferDesc GaugeValue value [sid, username]]) rows [])"

definition ScrapeForceLog :: Scraper where
  "ScrapeForceLog db = query (force_log_q db) (\<lambda>rows.
     let bufferDesc = NewDesc (BuildFQName namespace ''force'' ''log'') ''force log'' []
     in for_rows (\<lambda>forceLogging.
          let value = (if forceLogging = ''YES'' then 1 else 0)
          in [MustNewConstMetric bufferDesc GaugeValue value []]) rows [])"

definition ScrapeSessionTime :: Scraper where
  "ScrapeSessionTime db = query (session_time_q db) (\<lambda>rows.
     let loggedDesc = NewDesc (BuildFQName namespace ''sessions'' ''logged_time'')
           ''logged time unit second'' [''username'', ''terminal'', ''program''];
         sqlDesc = NewDesc (BuildFQName namespace ''sessions'' ''sql_time'')
           ''current sql time unit second'' [''username'', ''terminal'', ''program'']
     in for_rows (\<lambda>(username, terminal, program, logged_value, current_sql).
          [MustNewConstMetric loggedDesc GaugeValue logged_value [username, terminal, program],
           MustNewConstMetric sqlDesc GaugeValue current_sql [username, terminal, program]])
          rows [])"

definition ScrapeTransactionWaitTime :: Scraper where
  "ScrapeTransactionWaitTime db = query (transaction_q db) (\<lambda>rows.
     let transactionDesc = NewDesc (BuildFQName namespace ''transaction'' ''wait_time'')
           ''transaction wait time'' [''sid'', ''event'', ''blocking_session'']
     in for_rows (\<lambda>(sid, event, blocking_session, et).
          [MustNewConstMetric transactionDesc GaugeValue et [sid, event, blocking_session]])
          rows [])"

section \<open>The exporter and one collection pass\<close>

text \<open>
  The exporter's own metrics: two gauges for the last pass, a counter of passes, a counter
  per collector label (a \<^verbatim>\<open>CounterVec\<close>, whose children come into being at their first
  use, with value 0) and the \<open>up\<close> gauge. Counters are the number of times they were
  incremented.
\<close>

record Exporter =
  dsn :: string
  duration :: float64
  error :: float64
  totalScrapes :: nat
  scrapeErrors :: "string \<rightharpoonup> nat"
  up :: float64

definition NewExporter :: "string \<Rightarrow> Exporter" where
  "NewExporter d =
     \<lparr>dsn = d, duration = 0, error = 0, totalScrapes = 0, scrapeErrors = Map.empty, up = 0\<rparr>"

definition counter_value :: "(string \<rightharpoonup> nat) \<Rightarrow> string \<Rightarrow> nat" where
  "counter_value vec l = (case vec l of None \<Rightarrow> 0 | Some n \<Rightarrow> n)"

definition WithLabelValues_Inc :: "string \<Rightarrow> (string \<rightharpoonup> nat) \<Rightarrow> (string \<rightharpoonup> nat)" where
  "WithLabelValues_Inc l vec = vec(l \<mapsto> counter_value vec l + 1)"

text \<open>
  What a pass does, in the order it does it: the calls of \<open>scrape\<close> that touch the
  exporter's metrics or the database, and the calls of the sub-collectors by the names of
  their functions. The lines \<open>scrape\<close> logs are left out.
\<close>

datatype Event =
    TotalScrapesInc
  | SqlOpen
  | PingQuery
  | IsUpRowsClose
  | UpSet float64
  | Call string
  | ScrapeErrorsInc string
  | DbClose
  | DurationSet float64
  | ErrorSet float64

text \<open>
  The state of a pass: the exporter, the samples sent on the channel so far, the variable
  \<^verbatim>\<open>err\<close> of \<open>scrape\<close> (one variable throughout: \<^verbatim>\<open>db, err := sql.Open(...)\<close> and
  \<^verbatim>\<open>isUpRows, err := db.Query(...)\<close> declare only their first variable, and every
  \<^verbatim>\<open>if err = Scrape...(db, ch); err != nil\<close> assigns to it), and the events so far.
\<close>

record Pass =
  exporter :: Exporter
  sent :: "Metric list"
  err :: "err option"
  trace :: "Event list"

definition totalScrapes_Inc :: "Pass \<Rightarrow> Pass" where
  "totalScrapes_Inc p =
     p\<lparr>exporter := (exporter p)\<lparr>totalScrapes := totalScrapes (exporter p) + 1\<rparr>,
       trace := trace p @ [TotalScrapesInc]\<rparr>"

definition up_Set :: "float64 \<Rightarrow> Pass \<Rightarrow> Pass" where
  "up_Set v p = p\<lparr>exporter := (exporter p)\<lparr>up := v\<rparr>, trace := trace p @ [UpSet v]\<rparr>"

definition scrapeErrors_Inc :: "string \<Rightarrow> Pass \<Rightarrow> Pass" where
  "scrapeErrors_Inc l p =
     p\<lparr>exporter := (exporter p)\<lparr>scrapeErrors := WithLabelValues_Inc l (scrapeErrors (exporter p))\<rparr>,
       trace := trace p @ [ScrapeErrorsInc l]\<rparr>"

definition db_Close :: "Pass \<Rightarrow> Pass" where
  "db_Close p = p\<lparr>trace := trace p @ [DbClose]\<rparr>"

text \<open>
  The function \<open>scrape\<close> defers first:
  \<^verbatim>\<open>
  defer func(begun time.Time) {
      e.duration.Set(time.Since(begun).Seconds())
      if err == nil { e.error.Set(0) } else { e.error.Set(1) }
  }(time.Now())
  \<close>
  It runs last on every path and reads \<^verbatim>\<open>err\<close> as the path left it.
\<close>

definition deferred :: "DB \<Rightarrow> Pass \<Rightarrow> Pass" where
  "deferred db p =
     (let v = (if err p = None then 0 else 1)
      in p\<lparr>exporter := (exporter p)\<lparr>duration := elapsed db, error := v\<rparr>,
           trace := trace p @ [DurationSet (elapsed db), ErrorSet v]\<rparr>)"

text \<open>
  One statement of the roster,
  \<^verbatim>\<open>if err = ScrapeX(db, ch); err != nil { log.Errorln(...); e.scrapeErrors.WithLabelValues(l).Inc() }\<close>,
  for the sub-collector \<open>run\<close> whose function is named \<open>f\<close>.
\<close>

definition scrape_one :: "DB \<Rightarrow> string \<times> string \<times> Scraper \<Rightarrow> Pass \<Rightarrow> Pass" where
  "scrape_one db c p =
     (case c of (f, l, run) \<Rightarrow>
        (case run db of (ms, r) \<Rightarrow>
           (let p = p\<lparr>sent := sent p @ ms, err := r, trace := trace p @ [Call f]\<rparr>
            in if r \<noteq> None then scrapeErrors_Inc l p else p)))"

text \<open>The fourteen statements, in the order of the source, each with its error label.\<close>

definition collectors :: "(string \<times> string \<times> Scraper) list" where
  "collectors =
     [(''ScrapeActivity'', ''activity'', ScrapeActivity),
      (''ScrapeTablespace'', ''tablespace'', ScrapeTablespace),
      (''ScrapeWaitTime'', ''wait_time'', ScrapeWaitTime),
      (''ScrapeSessions'', ''sessions'', ScrapeSessions),
      (''ScrapeBufferPool'', ''buffer'', ScrapeBufferPool),
      (''ScrapeHitSGA'', ''sga'', ScrapeHitSGA),
      (''ScrapeUserNumber'', ''user_number'', ScrapeUserNumber),
      (''ScrapeResponseTime'', ''response_time'', ScrapeResponseTime),
      (''ScrapeAsmDisk'', ''asm_disk'', ScrapeAsmDisk),
      (''ScrapeDateFile'', ''date_file'', ScrapeDateFile),
      (''ScrapeSessionWait'', ''session_wait'', ScrapeSessionWait),
      (''ScrapeForceLog'', ''force_log'', ScrapeForceLog),
      (''ScrapeSessionTime'', ''session_user'', ScrapeSessionTime),
      (''ScrapeTransactionWaitTime'', ''transaction'', ScrapeTransactionWaitTime)]"

definition scrape_all :: "DB \<Rightarrow> (string \<times> string \<times> Scraper) list \<Rightarrow> Pass \<Rightarrow> Pass" where
  "scrape_all db cs p = foldl (\<lambda>p c. scrape_one db c p) p cs"

text \<open>
  \<^verbatim>\<open>
  func (e *Exporter) scrape(ch chan<- prometheus.Metric) {
      e.totalScrapes.Inc()
      var err error
      defer func(begun time.Time) { ... }(time.Now())
      db, err := sql.Open("oci8", e.dsn)
      if err != nil { log.Errorln(...); return }
      defer db.Close()
      isUpRows, err := db.Query("SELECT 1 FROM DUAL")
      if err != nil { log.Errorln(...); e.up.Set(0); return }
      isUpRows.Close()
      e.up.Set(1)
      ... the fourteen statements ...
  }
  \<close>
  The deferred calls run in reverse order: \<^verbatim>\<open>db.Close()\<close>, where it was deferred, then the
  closure.
\<close>

definition scrape :: "DB \<Rightarrow> Exporter \<Rightarrow> Pass" where
  "scrape db e =
     (let p = totalScrapes_Inc \<lparr>exporter = e, sent = [], err = None, trace = []\<rparr>;
          p = p\<lparr>err := open_err db, trace := trace p @ [SqlOpen]\<rparr>
      in if err p \<noteq> None then deferred db p
         else
           let p = p\<lparr>err := ping_err db, trace := trace p @ [PingQuery]\<rparr>
           in if err p \<noteq> None then deferred db (db_Close (up_Set 0 p))
              else
                let p = p\<lparr>trace := trace p @ [IsUpRowsClose]\<rparr>;
                    p = up_Set 1 p;
                    p = scrape_all db collectors p
                in deferred db (db_Close p))"

text \<open>The sub-collectors a trace calls, in order.\<close>

fun calls :: "Event list \<Rightarrow> string list" where
  "calls [] = []"
| "calls (Call f # evs) = f # calls evs"
| "calls (ev # evs) = calls evs"

text \<open>Whether a sub-collector returns a failure against a database.\<close>

definition fails :: "DB \<Rightarrow> Scraper \<Rightarrow> bool" where
  "fails db run = (snd (run db) \<noteq> None)"

text \<open>The error labels of the sub-collectors of a roster that fail against a database.\<close>

definition failed_labels :: "DB \<Rightarrow> (string \<times> string \<times> Scraper) list \<Rightarrow> string list" where
  "failed_labels db cs = map (\<lambda>(f, l, run). l) (filter (\<lambda>(f, l, run). fails db run) cs)"

text \<open>
  A database that is up and answers every query with no rows, and variations of it used
  as concrete inputs below.
\<close>

definition db_empty :: DB where
  "db_empty =
     \<lparr>open_err = None, ping_err = None,
      activity_q = Rows [], tablespace_q = Rows [], wait_time_q = Rows [], sessions_q = Rows [],
      buffer_pool_q = Rows [], hit_sga_q = Rows [], user_number_q = Rows [],
      response_time_q = Rows [], asm_disk_q = Rows [], date_file_q = Rows [],
      session_wait_q = Rows [], force_log_q = Rows [], session_time_q = Rows [],
      transaction_q = Rows [], elapsed = 1\<rparr>"

definition db_open_fails :: DB where
  "db_open_fails = db_empty\<lparr>open_err := Some ''invalid data source name''\<rparr>"

definition db_ping_fails :: DB where
  "db_ping_fails = db_empty\<lparr>ping_err := Some ''ORA-03114: not connected to ORACLE''\<rparr>"

definition db_transaction_fails :: DB where
  "db_transaction_fails =
     db_empty\<lparr>transaction_q := QueryError ''ORA-03113: end-of-file on communication channel''\<rparr>"

definition db_two_fail :: DB where
  "db_two_fail =
     db_empty\<lparr>tablespace_q := QueryError ''ORA-00942: table or view does not exist'',
       session_wait_q := Rows [Inr (''12'', ''SYSTEM'', 40),
         Inl ''sql: Scan error on column index 1: converting NULL to string is unsupported''],
       user_number_q := Rows [Inr 31]\<rparr>"

definition db_sessions :: DB where
  "db_sessions =
     db_empty\<lparr>sessions_q := Rows [Inr (''ACTIVE'', ''USER'', 3), Inr (''INACTIVE'', ''USER'', 2)]\<rparr>"

definition db_date_file :: DB where
  "db_date_file =
     db_empty\<lparr>date_file_q := Rows [Inr (''4'', ''/u01/oradata/users01.dbf'', ''ONLINE'')]\<rparr>"

definition db_asm :: DB where
  "db_asm =
     db_empty\<lparr>asm_disk_q := Rows [Inr (''1'', ''DATA (Fast)'', 1 / 4), Inr (''2'', ''FRA'', 1 / 2)]\<rparr>"

section \<open>Properties of the name sanitizer\<close>













section \<open>Properties of a collection pass\<close>

lemma for_rows_eq:
  "for_rows body rows out = (out @ concat (map body (scanned rows)), scan_err rows)"
  by (induction body rows out rule: for_rows.induct) simp_all

lemma calls_append: "calls (xs @ ys) = calls xs @ calls ys"
  by (induction xs rule: calls.induct) simp_all

lemma scrape_one_exporter:
  "exporter (scrape_one db (f, l, run) p) =
     (exporter p)\<lparr>scrapeErrors :=
       (if fails db run then WithLabelValues_Inc l (scrapeErrors (exporter p))
        else scrapeErrors (exporter p))\<rparr>"
  by (simp add: scrape_one_def scrapeErrors_Inc_def fails_def Let_def split: prod.splits)

lemma scrape_one_trace:
  "trace (scrape_one db (f, l, run) p) =
     trace p @ Call f # (if fails db run then [ScrapeErrorsInc l] else [])"
  by (simp add: scrape_one_def scrapeErrors_Inc_def fails_def Let_def split: prod.splits)

lemma scrape_one_err: "err (scrape_one db (f, l, run) p) = snd (run db)"
  by (simp add: scrape_one_def scrapeErrors_Inc_def Let_def split: prod.splits)

lemma scrape_one_sent: "sent (scrape_one db (f, l, run) p) = sent p @ fst (run db)"
  by (simp add: scrape_one_def scrapeErrors_Inc_def Let_def split: prod.splits)

lemma scrape_all_Nil: "scrape_all db [] p = p"
  by (simp add: scrape_all_def)

lemma scrape_all_Cons: "scrape_all db (c # cs) p = scrape_all db cs (scrape_one db c p)"
  by (simp add: scrape_all_def)

lemma scrape_all_snoc: "scrape_all db (cs @ [c]) p = scrape_one db c (scrape_all db cs p)"
  by (simp add: scrape_all_def)

lemma scrape_all_frame:
  "totalScrapes (exporter (scrape_all db cs p)) = totalScrapes (exporter p) \<and>
   up (exporter (scrape_all db cs p)) = up (exporter p) \<and>
   duration (exporter (scrape_all db cs p)) = duration (exporter p) \<and>
   error (exporter (scrape_all db cs p)) = error (exporter p) \<and>
   dsn (exporter (scrape_all db cs p)) = dsn (exporter p)"
proof (induction cs arbitrary: p)
  case Nil
  show ?case by (simp add: scrape_all_Nil)
next
  case (Cons c cs)
  obtain f l run where c: "c = (f, l, run)" by (cases c)
  show ?case
    by (simp add: scrape_all_Cons Cons.IH c scrape_one_exporter)
qed

lemma scrape_all_trace:
  "\<exists>t. trace (scrape_all db cs p) = trace p @ t \<and> calls t = map fst cs"
proof (induction cs arbitrary: p)
  case Nil
  show ?case by (simp add: scrape_all_Nil)
next
  case (Cons c cs)
  obtain f l run where c: "c = (f, l, run)" by (cases c)
  let ?s = "Call f # (if fails db run then [ScrapeErrorsInc l] else [])"
  from Cons.IH [of "scrape_one db (f, l, run) p"] obtain t where
    t: "trace (scrape_all db cs (scrape_one db (f, l, run) p)) = (trace p @ ?s) @ t"
       "calls t = map fst cs"
    unfolding scrape_one_trace by blast
  have "trace (scrape_all db (c # cs) p) = trace p @ (?s @ t)"
    unfolding c scrape_all_Cons t(1) by simp
  moreover have "calls (?s @ t) = map fst (c # cs)"
    by (simp add: calls_append t(2) c)
  ultimately show ?case by blast
qed

lemma scrape_all_err:
  "err (scrape_all db cs p) = (if cs = [] then err p else snd ((snd (snd (last cs))) db))"
proof (induction cs rule: rev_induct)
  case Nil
  show ?case by (simp add: scrape_all_Nil)
next
  case (snoc c cs)
  obtain f l run where c: "c = (f, l, run)" by (cases c)
  show ?case
    by (simp add: scrape_all_snoc c scrape_one_err)
qed

lemma scrape_all_sent:
  "sent (scrape_all db cs p) = sent p @ concat (map (\<lambda>(f, l, run). fst (run db)) cs)"
proof (induction cs arbitrary: p)
  case Nil
  show ?case by (simp add: scrape_all_Nil)
next
  case (Cons c cs)
  obtain f l run where c: "c = (f, l, run)" by (cases c)
  show ?case
    by (simp add: scrape_all_Cons Cons.IH c scrape_one_sent)
qed






lemmas scraper_defs =
  ScrapeActivity_def ScrapeTablespace_def ScrapeWaitTime_def ScrapeSessions_def
  ScrapeBufferPool_def ScrapeHitSGA_def ScrapeUserNumber_def ScrapeResponseTime_def
  ScrapeAsmDisk_def ScrapeDateFile_def ScrapeSessionWait_def ScrapeForceLog_def
  ScrapeSessionTime_def ScrapeTransactionWaitTime_def query_def

lemmas db_defs =
  db_empty_def db_open_fails_def db_ping_fails_def db_transaction_fails_def db_two_fail_def
  db_sessions_def db_date_file_def db_asm_def

lemma scrape_open_failure:
  "open_err db = Some x \<Longrightarrow>
   scrape db e =
     \<lparr>exporter = e\<lparr>duration := elapsed db, error := 1, totalScrapes := totalScrapes e + 1\<rparr>,
      sent = [], err = Some x,
      trace = [TotalScrapesInc, SqlOpen, DurationSet (elapsed db), ErrorSet 1]\<rparr>"
  by (simp add: scrape_def totalScrapes_Inc_def deferred_def Let_def)

lemma scrape_ping_failure:
  "open_err db = None \<Longrightarrow> ping_err db = Some x \<Longrightarrow>
   scrape db e =
     \<lparr>exporter = e\<lparr>duration := elapsed db, error := 1, totalScrapes := totalScrapes e + 1,
        up := 0\<rparr>,
      sent = [], err = Some x,
      trace = [TotalScrapesInc, SqlOpen, PingQuery, UpSet 0, DbClose, DurationSet (elapsed db),
        ErrorSet 1]\<rparr>"
  by (simp add: scrape_def totalScrapes_Inc_def deferred_def up_Set_def db_Close_def Let_def)

lemma scrape_probed:
  "open_err db = None \<Longrightarrow> ping_err db = None \<Longrightarrow>
   scrape db e =
     deferred db (db_Close (scrape_all db collectors
       \<lparr>exporter = e\<lparr>totalScrapes := totalScrapes e + 1, up := 1\<rparr>, sent = [], err = None,
        trace = [TotalScrapesInc, SqlOpen, PingQuery, IsUpRowsClose, UpSet 1]\<rparr>))"
  by (simp add: scrape_def totalScrapes_Inc_def up_Set_def Let_def)

lemma deferred_fields:
  "totalScrapes (exporter (deferred db p)) = totalScrapes (exporter p)"
  "up (exporter (deferred db p)) = up (exporter p)"
  "scrapeErrors (exporter (deferred db p)) = scrapeErrors (exporter p)"
  "error (exporter (deferred db p)) = (if err p = None then 0 else 1)"
  "duration (exporter (deferred db p)) = elapsed db"
  "sent (deferred db p) = sent p"
  "trace (deferred db p) =
     trace p @ [DurationSet (elapsed db), ErrorSet (if err p = None then 0 else 1)]"
  by (simp_all add: deferred_def Let_def)

lemma db_Close_fields:
  "exporter (db_Close p) = exporter p" "sent (db_Close p) = sent p" "err (db_Close p) = err p"
  "trace (db_Close p) = trace p @ [DbClose]"
  by (simp_all add: db_Close_def)

lemma last_collectors:
  "collectors \<noteq> [] \<and> snd (snd (last collectors)) = ScrapeTransactionWaitTime"
  by (simp add: collectors_def)

lemma scrape_error_gauge:
  "error (exporter (scrape db e)) =
     (if open_err db \<noteq> None \<or> ping_err db \<noteq> None \<or> fails db ScrapeTransactionWaitTime
      then 1 else 0)"
proof (cases "open_err db")
  case (Some x)
  then show ?thesis by (simp add: scrape_open_failure)
next
  case None
  show ?thesis
  proof (cases "ping_err db")
    case (Some x)
    with None show ?thesis by (simp add: scrape_ping_failure)
  next
    case ping: None
    show ?thesis
      by (simp add: scrape_probed [OF None ping] deferred_fields db_Close_fields
          scrape_all_err last_collectors fails_def None ping)
  qed
qed

text \<open>
  C5. Every pass increases \<open>total_scrapes\<close> by exactly 1, whatever the connection open, the
  liveness probe and the sub-collectors do.
\<close>

theorem total_scrapes_plus_one:
  "totalScrapes (exporter (scrape db e)) = totalScrapes e + 1"
proof (cases "open_err db")
  case (Some x)
  then show ?thesis by (simp add: scrape_open_failure)
next
  case None
  show ?thesis
  proof (cases "ping_err db")
    case (Some x)
    with None show ?thesis by (simp add: scrape_ping_failure)
  next
    case ping: None
    show ?thesis
      by (simp add: scrape_probed [OF None ping] deferred_fields db_Close_fields
          scrape_all_frame)
  qed
qed

theorem total_scrapes_plus_one_witness:
  "totalScrapes (exporter (scrape db_ping_fails (NewExporter ''system/manager@orcl''))) = 1"
  using total_scrapes_plus_one [of db_ping_fails "NewExporter ''system/manager@orcl''"]
  by (simp add: NewExporter_def)

text \<open>
  C3. In a pass that reaches the liveness probe: if the probe fails, \<open>up\<close> is set to 0, no
  sample is sent and no sub-collector is called; if it succeeds, \<open>up\<close> is set to 1 before
  any sub-collector is called (the event \<open>UpSet 1\<close> has no call before it and the calls of
  the whole roster after it), and it is still 1 when the pass ends.
\<close>

theorem liveness_probe_decides_up:
  assumes "open_err db = None"
  shows "(ping_err db \<noteq> None \<longrightarrow>
            up (exporter (scrape db e)) = 0 \<and> sent (scrape db e) = [] \<and>
            calls (trace (scrape db e)) = []) \<and>
         (ping_err db = None \<longrightarrow>
            up (exporter (scrape db e)) = 1 \<and>
            (\<exists>before after. trace (scrape db e) = before @ UpSet 1 # after \<and>
               calls before = [] \<and> calls after = map fst collectors))"
proof (cases "ping_err db")
  case (Some x)
  with assms show ?thesis by (simp add: scrape_ping_failure)
next
  case None
  define p where "p = \<lparr>exporter = e\<lparr>totalScrapes := totalScrapes e + 1, up := 1\<rparr>, sent = [],
    err = None, trace = [TotalScrapesInc, SqlOpen, PingQuery, IsUpRowsClose, UpSet 1]\<rparr>"
  define q where "q = scrape_all db collectors p"
  have s: "scrape db e = deferred db (db_Close q)"
    unfolding q_def p_def by (rule scrape_probed [OF assms None])
  have u: "up (exporter (scrape db e)) = 1"
    by (simp add: s deferred_fields db_Close_fields q_def scrape_all_frame p_def)
  from scrape_all_trace [of db collectors p] obtain t where
    t: "trace q = trace p @ t" "calls t = map fst collectors"
    unfolding q_def by blast
  define after where
    "after = t @ [DbClose, DurationSet (elapsed db), ErrorSet (if err q = None then 0 else 1)]"
  have "trace (scrape db e) = [TotalScrapesInc, SqlOpen, PingQuery, IsUpRowsClose] @ UpSet 1 # after"
    by (simp add: s deferred_fields db_Close_fields t(1) after_def p_def)
  moreover have "calls [TotalScrapesInc, SqlOpen, PingQuery, IsUpRowsClose] = []"
    by simp
  moreover have "calls after = map fst collectors"
    by (simp add: after_def calls_append t(2))
  ultimately have "\<exists>before after. trace (scrape db e) = before @ UpSet 1 # after \<and>
      calls before = [] \<and> calls after = map fst collectors"
    by blast
  with u None show ?thesis by simp
qed

theorem liveness_probe_decides_up_witness:
  "open_err db_ping_fails = None \<and> ping_err db_ping_fails \<noteq> None \<and>
   up (exporter (scrape db_ping_fails (NewExporter ''system/manager@orcl''))) = 0 \<and>
   sent (scrape db_ping_fails (NewExporter ''system/manager@orcl'')) = [] \<and>
   open_err db_empty = None \<and> ping_err db_empty = None \<and>
   up (exporter (scrape db_empty (NewExporter ''system/manager@orcl''))) = 1"
proof -
  have a: "open_err db_ping_fails = None" and b: "ping_err db_ping_fails \<noteq> None"
    and c: "open_err db_empty = None" and d: "ping_err db_empty = None"
    by (simp_all add: db_defs)
  from liveness_probe_decides_up [OF a, of "NewExporter ''system/manager@orcl''"]
    liveness_probe_decides_up [OF c, of "NewExporter ''system/manager@orcl''"] a b c d
  show ?thesis by simp
qed



text \<open>
  C1. The gauge \<open>last_error\<close> (the field \<open>error\<close>) after a pass is 1 exactly when the
  variable \<open>err\<close> is not \<open>nil\<close> when the deferred closure runs. Every statement of
  the roster assigns to that variable, so what the closure reads after a full roster is the
  result of the last sub-collector, \<open>ScrapeTransactionWaitTime\<close> (lemma
  \<open>scrape_error_gauge\<close>). Against a database that is up and fails only the query of
  \<open>ScrapeTransactionWaitTime\<close>, the connection opens, the probe succeeds, the one failing
  sub-collector is the last, and the pass ends with \<open>last_error\<close> at 1, not at 0.
\<close>

theorem last_collector_failure_sets_last_error:
  "open_err db_transaction_fails = None \<and> ping_err db_transaction_fails = None \<and>
   failed_labels db_transaction_fails collectors = [''transaction''] \<and>
   error (exporter (scrape db_transaction_fails (NewExporter ''system/manager@orcl''))) = 1"
proof -
  have a: "open_err db_transaction_fails = None \<and> ping_err db_transaction_fails = None"
    by (simp add: db_defs)
  have b: "failed_labels db_transaction_fails collectors = [''transaction'']"
    by (simp add: failed_labels_def collectors_def fails_def scraper_defs db_defs)
  have c: "fails db_transaction_fails ScrapeTransactionWaitTime"
    by (simp add: fails_def scraper_defs db_defs)
  from a b c show ?thesis
    by (simp add: scrape_error_gauge)
qed


section \<open>Properties of the sub-collectors\<close>

lemma query_for_rows:
  "query q (\<lambda>rows. for_rows body rows []) = (concat (map body (rows_of q)), failure_of q)"
  by (cases q) (simp_all add: query_def rows_of_def failure_of_def for_rows_eq)

lemma sessions_loop_eq:
  "sessions_loop rows a i out =
     (out @ map (\<lambda>(status, sessionType, count).
         MustNewConstMetric
           (NewDesc (BuildFQName namespace ''sessions'' ''activity'')
              ''Gauge metric with count of sessions by status and type'' [''status'', ''type''])
           GaugeValue count [status, sessionType]) (scanned rows),
      a + sum_list (map (\<lambda>(status, sessionType, count). if status = ''ACTIVE'' then count else 0) (scanned rows)),
      i + sum_list (map (\<lambda>(status, sessionType, count). if status = ''INACTIVE'' then count else 0) (scanned rows)),
      scan_err rows)"
  by (induction rows a i out rule: sessions_loop.induct) (simp_all add: Let_def)

lemma ScrapeSessions_labels:
  "map labels (fst (ScrapeSessions db)) =
     map (\<lambda>(status, sessionType, count). [(''status'', status), (''type'', sessionType)])
       (rows_of (sessions_q db)) @
     (if failure_of (sessions_q db) = None then [[], []] else [])"
proof (cases "sessions_q db")
  case (QueryError e)
  then show ?thesis
    by (simp add: ScrapeSessions_def query_def rows_of_def failure_of_def)
next
  case (Rows rows)
  then show ?thesis
    by (cases "scan_err rows")
      (simp_all add: ScrapeSessions_def query_def rows_of_def failure_of_def sessions_loop_eq
        comp_def case_prod_unfold labels_def MustNewConstMetric_def NewDesc_def)
qed

lemmas labels_simps =
  query_for_rows Let_def map_concat comp_def case_prod_unfold labels_def
  MustNewConstMetric_def NewDesc_def

text \<open>
  C9. When the sessions query yields exactly the rows (ACTIVE, USER, 3) and
  (INACTIVE, USER, 2), \<open>ScrapeSessions\<close> sends the activity gauge of each row, with values 3
  and 2 and the row's status and type as labels, then the deprecated aggregates
  \<open>sessions_active\<close> = 3 and \<open>sessions_inactive\<close> = 2, and returns \<open>nil\<close>.
\<close>

theorem sessions_example:
  assumes "sessions_q db = Rows [Inr (''ACTIVE'', ''USER'', 3), Inr (''INACTIVE'', ''USER'', 2)]"
  shows "map (\<lambda>m. (fqName (desc m), valType m, val m, zip (variableLabels (desc m)) (labelValues m)))
           (fst (ScrapeSessions db)) =
         [(''oracledb_sessions_activity'', GaugeValue, 3, [(''status'', ''ACTIVE''), (''type'', ''USER'')]),
          (''oracledb_sessions_activity'', GaugeValue, 2, [(''status'', ''INACTIVE''), (''type'', ''USER'')]),
          (''oracledb_sessions_active'', GaugeValue, 3, []),
          (''oracledb_sessions_inactive'', GaugeValue, 2, [])] \<and>
         snd (ScrapeSessions db) = None"
  by (simp add: ScrapeSessions_def query_def assms Let_def MustNewConstMetric_def NewDesc_def
      BuildFQName_def namespace_def)

theorem sessions_example_witness:
  "map (\<lambda>m. (fqName (desc m), val m)) (fst (ScrapeSessions db_sessions)) =
     [(''oracledb_sessions_activity'', 3), (''oracledb_sessions_activity'', 2),
      (''oracledb_sessions_active'', 3), (''oracledb_sessions_inactive'', 2)] \<and>
   snd (ScrapeSessions db_sessions) = None"
proof -
  have q: "sessions_q db_sessions =
      Rows [Inr (''ACTIVE'', ''USER'', 3), Inr (''INACTIVE'', ''USER'', 2)]"
    by (simp add: db_defs)
  from sessions_example [OF q] have
    m: "map (\<lambda>m. (fqName (desc m), valType m, val m, zip (variableLabels (desc m)) (labelValues m)))
           (fst (ScrapeSessions db_sessions)) =
         [(''oracledb_sessions_activity'', GaugeValue, 3, [(''status'', ''ACTIVE''), (''type'', ''USER'')]),
          (''oracledb_sessions_activity'', GaugeValue, 2, [(''status'', ''INACTIVE''), (''type'', ''USER'')]),
          (''oracledb_sessions_active'', GaugeValue, 3, []),
          (''oracledb_sessions_inactive'', GaugeValue, 2, [])]"
    and e: "snd (ScrapeSessions db_sessions) = None" by blast+
  have "map (\<lambda>m. (fqName (desc m), val m)) (fst (ScrapeSessions db_sessions)) =
      map (\<lambda>(n, t, v, ls). (n, v))
        (map (\<lambda>m. (fqName (desc m), valType m, val m, zip (variableLabels (desc m)) (labelValues m)))
           (fst (ScrapeSessions db_sessions)))"
    by (simp add: comp_def)
  also have "\<dots> = [(''oracledb_sessions_activity'', 3), (''oracledb_sessions_activity'', 2),
      (''oracledb_sessions_active'', 3), (''oracledb_sessions_inactive'', 2)]"
    unfolding m by simp
  finally show ?thesis using e by simp
qed

text \<open>
  C10. For every row of the ASM disk-group query that the loop scans, \<open>ScrapeAsmDisk\<close> sends
  one gauge sample of \<open>oracledb_asm_disk_usage\<close> whose label under the key \<open>type\<close> is the
  sanitized disk-group name (the second column) and whose label under the key
  \<open>group_name\<close> is the group number as scanned from the first column: the two values sit
  under each other's key. (\<open>rows_of\<close> is every row when every scan succeeds; a failing scan
  ends the loop with its error.)
\<close>

theorem asm_disk_labels:
  "map (\<lambda>m. (fqName (desc m), valType m, val m, label m ''type'', label m ''group_name''))
     (fst (ScrapeAsmDisk db)) =
   map (\<lambda>(group_number, name, value).
          (''oracledb_asm_disk_usage'', GaugeValue, value, Some (cleanName name), Some group_number))
     (rows_of (asm_disk_q db))"
  by (simp add: ScrapeAsmDisk_def query_for_rows Let_def map_concat comp_def case_prod_unfold
      label_def labels_def MustNewConstMetric_def NewDesc_def BuildFQName_def namespace_def)


theorem asm_disk_labels_witness:
  "map (\<lambda>m. (fqName (desc m), valType m, val m, label m ''type'', label m ''group_name''))
     (fst (ScrapeAsmDisk db_asm)) =
   [(''oracledb_asm_disk_usage'', GaugeValue, 1 / 4, Some ''data_fast'', Some ''1''),
    (''oracledb_asm_disk_usage'', GaugeValue, 1 / 2, Some ''fra'', Some ''2'')]"
proof -
  have c: "cleanName ''DATA (Fast)'' = ''data_fast''" "cleanName ''FRA'' = ''fra''"
    by code_simp+
  show ?thesis
    unfolding asm_disk_labels [of db_asm]
    by (simp add: db_defs rows_of_def c)
qed

text \<open>
  C7, as the code has it. The sanitizer is applied to the database-supplied strings that
  become part of a family name (\<open>ScrapeActivity\<close>, \<open>ScrapeWaitTime\<close>) and to four label
  values as well: \<open>table\<close> of \<open>ScrapeBufferPool\<close>, \<open>type\<close> of \<open>ScrapeResponseTime\<close>,
  \<open>type\<close> of \<open>ScrapeAsmDisk\<close> and \<open>filename\<close> of \<open>ScrapeDateFile\<close>. Every other label
  value of every sample of every sub-collector is the string scanned from the row.
\<close>

theorem sanitized_and_raw_labels:
  "map (fqName \<circ> desc) (fst (ScrapeActivity db)) =
     map (\<lambda>(name, value). BuildFQName namespace ''activity'' (cleanName name))
       (rows_of (activity_q db)) \<and>
   map (fqName \<circ> desc) (fst (ScrapeWaitTime db)) =
     map (\<lambda>(name, value). BuildFQName namespace ''wait_time'' (cleanName name))
       (rows_of (wait_time_q db)) \<and>
   map labels (fst (ScrapeBufferPool db)) =
     map (\<lambda>(name, physical_reads, db_block_gets, consistent_gets, hit_ratio).
            [(''table'', cleanName name)]) (rows_of (buffer_pool_q db)) \<and>
   map labels (fst (ScrapeResponseTime db)) =
     map (\<lambda>(name, value). [(''type'', cleanName name)]) (rows_of (response_time_q db)) \<and>
   map labels (fst (ScrapeAsmDisk db)) =
     map (\<lambda>(group_name, name, value). [(''type'', cleanName name), (''group_name'', group_name)])
       (rows_of (asm_disk_q db)) \<and>
   map labels (fst (ScrapeDateFile db)) =
     map (\<lambda>(file, filename, status). [(''file'', file), (''filename'', cleanName filename)])
       (rows_of (date_file_q db)) \<and>
   map labels (fst (ScrapeActivity db)) = map (\<lambda>r. []) (rows_of (activity_q db)) \<and>
   map labels (fst (ScrapeTablespace db)) =
     concat (map (\<lambda>(tablespace_name, status, contents, extent_management, bytes, max_bytes, bytes_free).
         replicate 3 [(''tablespace'', tablespace_name), (''type'', contents)])
       (rows_of (tablespace_q db))) \<and>
   map labels (fst (ScrapeWaitTime db)) = map (\<lambda>r. []) (rows_of (wait_time_q db)) \<and>
   map labels (fst (ScrapeSessions db)) =
     map (\<lambda>(status, sessionType, count). [(''status'', status), (''type'', sessionType)])
       (rows_of (sessions_q db)) @
     (if failure_of (sessions_q db) = None then [[], []] else []) \<and>
   map labels (fst (ScrapeHitSGA db)) = map (\<lambda>r. []) (rows_of (hit_sga_q db)) \<and>
   map labels (fst (ScrapeUserNumber db)) = map (\<lambda>r. []) (rows_of (user_number_q db)) \<and>
   map labels (fst (ScrapeSessionWait db)) =
     map (\<lambda>(sid, username, value). [(''sid'', sid), (''username'', username)])
       (rows_of (session_wait_q db)) \<and>
   map labels (fst (ScrapeForceLog db)) = map (\<lambda>r. []) (rows_of (force_log_q db)) \<and>
   map labels (fst (ScrapeSessionTime db)) =
     concat (map (\<lambda>(username, terminal, program, logged_value, current_sql).
         replicate 2 [(''username'', username), (''terminal'', terminal), (''program'', program)])
       (rows_of (session_time_q db))) \<and>
   map labels (fst (ScrapeTransactionWaitTime db)) =
     map (\<lambda>(sid, event, blocking_session, et).
            [(''sid'', sid), (''event'', event), (''blocking_session'', blocking_session)])
       (rows_of (transaction_q db))"
proof -
  have n1: "map (fqName \<circ> desc) (fst (ScrapeActivity db)) =
     map (\<lambda>(name, value). BuildFQName namespace ''activity'' (cleanName name))
       (rows_of (activity_q db))"
    by (simp add: ScrapeActivity_def labels_simps)
  have n2: "map (fqName \<circ> desc) (fst (ScrapeWaitTime db)) =
     map (\<lambda>(name, value). BuildFQName namespace ''wait_time'' (cleanName name))
       (rows_of (wait_time_q db))"
    by (simp add: ScrapeWaitTime_def labels_simps)
  have c1: "map labels (fst (ScrapeBufferPool db)) =
     map (\<lambda>(name, physical_reads, db_block_gets, consistent_gets, hit_ratio).
            [(''table'', cleanName name)]) (rows_of (buffer_pool_q db))"
    by (simp add: ScrapeBufferPool_def labels_simps)
  have c2: "map labels (fst (ScrapeResponseTime db)) =
     map (\<lambda>(name, value). [(''type'', cleanName name)]) (rows_of (response_time_q db))"
    by (simp add: ScrapeResponseTime_def labels_simps)
  have c3: "map labels (fst (ScrapeAsmDisk db)) =
     map (\<lambda>(group_name, name, value). [(''type'', cleanName name), (''group_name'', group_name)])
       (rows_of (asm_disk_q db))"
    by (simp add: ScrapeAsmDisk_def labels_simps)
  have c4: "map labels (fst (ScrapeDateFile db)) =
     map (\<lambda>(file, filename, status). [(''file'', file), (''filename'', cleanName filename)])
       (rows_of (date_file_q db))"
    by (simp add: ScrapeDateFile_def labels_simps)
  have r1: "map labels (fst (ScrapeActivity db)) = map (\<lambda>r. []) (rows_of (activity_q db))"
    by (simp add: ScrapeActivity_def labels_simps)
  have r2: "map labels (fst (ScrapeTablespace db)) =
     concat (map (\<lambda>(tablespace_name, status, contents, extent_management, bytes, max_bytes, bytes_free).
         replicate 3 [(''tablespace'', tablespace_name), (''type'', contents)])
       (rows_of (tablespace_q db)))"
    by (simp add: ScrapeTablespace_def labels_simps numeral_3_eq_3)
  have r3: "map labels (fst (ScrapeWaitTime db)) = map (\<lambda>r. []) (rows_of (wait_time_q db))"
    by (simp add: ScrapeWaitTime_def labels_simps)
  have r5: "map labels (fst (ScrapeHitSGA db)) = map (\<lambda>r. []) (rows_of (hit_sga_q db))"
    by (simp add: ScrapeHitSGA_def labels_simps)
  have r6: "map labels (fst (ScrapeUserNumber db)) = map (\<lambda>r. []) (rows_of (user_number_q db))"
    by (simp add: ScrapeUserNumber_def labels_simps)
  have r7: "map labels (fst (ScrapeSessionWait db)) =
     map (\<lambda>(sid, username, value). [(''sid'', sid), (''username'', username)])
       (rows_of (session_wait_q db))"
    by (simp add: ScrapeSessionWait_def labels_simps)
  have r8: "map labels (fst (ScrapeForceLog db)) = map (\<lambda>r. []) (rows_of (force_log_q db))"
    by (simp add: ScrapeForceLog_def labels_simps)
  have r9: "map labels (fst (ScrapeSessionTime db)) =
     concat (map (\<lambda>(username, terminal, program, logged_value, current_sql).
         replicate 2 [(''username'', username), (''terminal'', terminal), (''program'', program)])
       (rows_of (session_time_q db)))"
    by (simp add: ScrapeSessionTime_def labels_simps numeral_2_eq_2)
  have r10: "map labels (fst (ScrapeTransactionWaitTime db)) =
     map (\<lambda>(sid, event, blocking_session, et).
            [(''sid'', sid), (''event'', event), (''blocking_session'', blocking_session)])
       (rows_of (transaction_q db))"
    by (simp add: ScrapeTransactionWaitTime_def labels_simps)
  from n1 n2 c1 c2 c3 c4 r1 r2 r3 ScrapeSessions_labels [of db] r5 r6 r7 r8 r9 r10
  show ?thesis by (intro conjI)
qed

text \<open>
  C7, as stated, fails: \<open>ScrapeDateFile\<close> scans the file name
  \<open>/u01/oradata/users01.dbf\<close> and sends the label value \<open>u01oradatausers01.dbf\<close>.
\<close>

theorem label_values_raw_counterexample:
  "rows_of (date_file_q db_date_file) = [(''4'', ''/u01/oradata/users01.dbf'', ''ONLINE'')] \<and>
   map labels (fst (ScrapeDateFile db_date_file)) =
     [[(''file'', ''4''), (''filename'', ''u01oradatausers01.dbf'')]] \<and>
   ''u01oradatausers01.dbf'' \<noteq> ''/u01/oradata/users01.dbf''"
proof -
  have c: "cleanName ''/u01/oradata/users01.dbf'' = ''u01oradatausers01.dbf''"
    by code_simp
  have r: "rows_of (date_file_q db_date_file) = [(''4'', ''/u01/oradata/users01.dbf'', ''ONLINE'')]"
    by (simp add: db_defs rows_of_def)
  have "map labels (fst (ScrapeDateFile db_date_file)) =
     [[(''file'', ''4''), (''filename'', ''u01oradatausers01.dbf'')]]"
    by (simp add: ScrapeDateFile_def labels_simps r c)
  with r show ?thesis by simp
qed

end
